theory Spec2Isabelle
  imports Main
begin

section \<open>Data model of the application-only OAuth session\<close>

text \<open>
  An instant of \<open>time.Time\<close> is an integer offset from the zero value of the type, so the
  zero \<open>TokenExpiry\<close> of a fresh session is \<open>0\<close> and \<open>t.Before(u)\<close> is \<open>t < u\<close>.
\<close>

type_synonym Time = int

datatype Context = Background

text \<open>\<open>clientcredentials.Config\<close>, with the three fields the constructor fills in.\<close>

record Config =
  cfg_ClientID :: string
  cfg_ClientSecret :: string
  cfg_TokenURL :: string

text \<open>
  The \<open>*http.Client\<close> that \<open>OAuthConfig.Client(ctx)\<close> builds: it is never nil and is
  determined by the configuration and the context it was built from.
\<close>

datatype http_Client = oauth_Client "Config option" "Context option"

text \<open>The \<open>oauth2.Token\<close>; the session reads its \<open>Expiry\<close> only.\<close>

record Token =
  Expiry :: Time

text \<open>
  The struct \<open>AppOnlyOAuthSession\<close>. A pointer field is an option, \<open>None\<close> being nil.
\<close>

record AppOnlyOAuthSession =
  Client :: "http_Client option"
  ClientID :: string
  ClientSecret :: string
  OAuthConfig :: "Config option"
  TokenExpiry :: Time
  UserAgent :: string
  ctx :: "Context option"
  Debug :: bool

text \<open>
  An \<open>*http.Request\<close>: the method, the link it was built from and its header, a list of
  keys with their values.
\<close>

record Request =
  Method :: string
  URL :: string
  Header :: "(string \<times> string list) list"

text \<open>
  An \<open>*http.Response\<close>, reduced to what \<open>ioutil.ReadAll(resp.Body)\<close> returns: the bytes
  read and the error of the read.
\<close>

record Response =
  ReadAll_body :: string
  ReadAll_err :: "string option"

text \<open>
  Error values. \<open>ErrorsNew\<close> is a value made by \<open>errors.New\<close> in this package; the others
  are the values returned by a library call, tagged with the call that returned them and
  carrying its message.
\<close>

datatype error =
  ErrorsNew string
  | TokenError string
  | NewRequestError string
  | DoError string
  | UnmarshalError string
  | ValuesError string

text \<open>The effects a call performs on the outside world, in the order it performs them.\<close>

datatype event =
  TokenExchange "Config option"
  | HTTPDo http_Client Request
  | Printf string

text \<open>\<open>url.Values\<close>, a map from keys to lists of values, and its method \<open>Set\<close>.\<close>

type_synonym Values = "string \<Rightarrow> string list option"

definition Values_Set :: "Values \<Rightarrow> string \<Rightarrow> string \<Rightarrow> Values" where
  "Values_Set v key val = v(key \<mapsto> [val])"

text \<open>
  The collaborators outside the package, as they answer during one call of a method: the
  clock, the token endpoint behind \<open>OAuthConfig.Token\<close>, the URL check of
  \<open>http.NewRequest\<close> (the message of its error for a link it rejects), the transport
  behind \<open>Client.Do\<close>, the query-string serializer \<open>query.Values\<close> with \<open>Encode\<close>, and
  \<open>fmt.Sprintf\<close> on the formats that \<open>Sprintf\<close> below does not cover. The type \<open>'o\<close> is
  \<open>ListingOptions\<close>, which is declared outside the files modelled here.
\<close>

record 'o env =
  time_Now :: Time
  Config_Token :: "Config option \<Rightarrow> Context option \<Rightarrow> string + Token"
  http_NewRequest :: "string \<Rightarrow> string \<Rightarrow> string option"
  Client_Do :: "http_Client \<Rightarrow> Request \<Rightarrow> string + Response"
  query_Values :: "'o \<Rightarrow> string + Values"
  Values_Encode :: "Values \<Rightarrow> string"
  fmt_Sprintf :: "string \<Rightarrow> string list \<Rightarrow> string"

text \<open>
  What a method leaves behind: the value it returns (for \<open>getBody\<close>, the target \<open>d\<close>
  after the call), the error it returns, the session after the call and the effects
  performed.
\<close>

record 'r result =
  ret :: 'r
  err :: "error option"
  sess :: AppOnlyOAuthSession
  events :: "event list"

section \<open>Construction\<close>

definition default_UserAgent :: string where
  "default_UserAgent = ''Geddit API Client https://github.com/imheresamir/geddit''"

text \<open>
  \<open>NewAppOnlyOAuthSession\<close> returns the pointer to the new session and a nil error. The
  argument \<open>debug\<close> is not stored: \<open>Debug\<close> keeps its zero value, as do \<open>Client\<close> and
  \<open>TokenExpiry\<close>.
\<close>

definition NewAppOnlyOAuthSession ::
  "string \<Rightarrow> string \<Rightarrow> string \<Rightarrow> bool \<Rightarrow> (AppOnlyOAuthSession option \<times> error option \<times> event list)" where
  "NewAppOnlyOAuthSession clientID clientSecret useragent debug =
     (let s = \<lparr>Client = None, ClientID = [], ClientSecret = [], OAuthConfig = None,
               TokenExpiry = 0, UserAgent = [], ctx = None, Debug = False\<rparr>;
          s = (if useragent \<noteq> [] then s\<lparr>UserAgent := useragent\<rparr>
               else s\<lparr>UserAgent := default_UserAgent\<rparr>);
          s = s\<lparr>ClientID := clientID\<rparr>;
          s = s\<lparr>ClientSecret := clientSecret\<rparr>;
          s = s\<lparr>OAuthConfig := Some \<lparr>cfg_ClientID = clientID, cfg_ClientSecret = clientSecret,
                 cfg_TokenURL = ''https://www.reddit.com/api/v1/access_token''\<rparr>\<rparr>;
          s = s\<lparr>ctx := Some Background\<rparr>
      in (Some s, None, []))"

section \<open>Token refresh and the low-level fetch\<close>

definition refreshToken :: "'o env \<Rightarrow> AppOnlyOAuthSession \<Rightarrow> unit result" where
  "refreshToken e a =
     (if time_Now e < TokenExpiry a
      then \<lparr>ret = (), err = None, sess = a, events = []\<rparr>
      else (case Config_Token e (OAuthConfig a) (ctx a) of
              Inl m \<Rightarrow> \<lparr>ret = (), err = Some (TokenError m), sess = a,
                        events = [TokenExchange (OAuthConfig a)]\<rparr>
            | Inr t \<Rightarrow> \<lparr>ret = (), err = None,
                        sess = a\<lparr>TokenExpiry := Expiry t,
                                 Client := Some (oauth_Client (OAuthConfig a) (ctx a))\<rparr>,
                        events = [TokenExchange (OAuthConfig a)]\<rparr>))"

definition Header_Set ::
  "(string \<times> string list) list \<Rightarrow> string \<Rightarrow> string \<Rightarrow> (string \<times> string list) list" where
  "Header_Set h key val = (key, [val]) # filter (\<lambda>kv. fst kv \<noteq> key) h"

definition lacks_client :: error where
  "lacks_client = ErrorsNew ''OAuth Session lacks HTTP client! Error getting token''"

text \<open>
  \<open>getBody\<close>. The error of \<open>refreshToken\<close> is dropped, and so is the error of
  \<open>ioutil.ReadAll\<close>, whose bytes are decoded whatever it was. \<open>json.Unmarshal\<close> is the
  argument \<open>unmarshal\<close>: given the body and the target it returns the target as the decoder
  left it, also when it fails, and the message of its error.
\<close>

definition getBody ::
  "'o env \<Rightarrow> (string \<Rightarrow> 'd \<Rightarrow> 'd \<times> string option) \<Rightarrow> AppOnlyOAuthSession \<Rightarrow> string \<Rightarrow> 'd
     \<Rightarrow> 'd result" where
  "getBody e unmarshal a link d =
     (let r = refreshToken e a; a1 = sess r; ev = events r in
      case http_NewRequest e ''GET'' link of
        Some m \<Rightarrow> \<lparr>ret = d, err = Some (NewRequestError m), sess = a1, events = ev\<rparr>
      | None \<Rightarrow>
          (let req = \<lparr>Method = ''GET'', URL = link,
                      Header = Header_Set [] ''User-Agent'' (UserAgent a1)\<rparr> in
           case Client a1 of
             None \<Rightarrow> \<lparr>ret = d, err = Some lacks_client, sess = a1, events = ev\<rparr>
           | Some c \<Rightarrow>
               (case Client_Do e c req of
                  Inl m \<Rightarrow> \<lparr>ret = d, err = Some (DoError m), sess = a1,
                            events = ev @ [HTTPDo c req]\<rparr>
                | Inr resp \<Rightarrow>
                    (let body = ReadAll_body resp;
                         ev2 = ev @ [HTTPDo c req] @ (if Debug a1 then [Printf body] else []);
                         (d', me) = unmarshal body d
                     in case me of
                          Some m \<Rightarrow> \<lparr>ret = d', err = Some (UnmarshalError m), sess = a1,
                                     events = ev2\<rparr>
                        | None \<Rightarrow> \<lparr>ret = d', err = None, sess = a1, events = ev2\<rparr>))))"

section \<open>Formatting links\<close>

text \<open>
  \<open>fmt.Sprintf\<close> on string operands, for the formats whose directives are the plain verbs
  \<open>%s\<close> and \<open>%v\<close> and the escape \<open>%%\<close>: a verb prints the next operand, or
  \<open>%!s(MISSING)\<close> when none is left; a \<open>%\<close> that ends the format prints \<open>%!(NOVERB)\<close>.
  The result is \<open>None\<close> on any other directive and when operands are left over. The sort
  key, of the string type \<open>popularitySort\<close>, is printed as its string.
\<close>

fun Sprintf_verbs :: "string \<Rightarrow> string list \<Rightarrow> string option" where
  "Sprintf_verbs [] args = (if args = [] then Some [] else None)"
| "Sprintf_verbs (c # f) args =
     (if c \<noteq> CHR ''%'' then map_option ((#) c) (Sprintf_verbs f args)
      else (case f of
              [] \<Rightarrow> (if args = [] then Some ''%!(NOVERB)'' else None)
            | v # f' \<Rightarrow>
                if v = CHR ''%'' then map_option ((#) (CHR ''%'')) (Sprintf_verbs f' args)
                else if v = CHR ''s'' \<or> v = CHR ''v'' then
                  (case args of
                     [] \<Rightarrow> map_option ((@) (''%!'' @ [v] @ ''(MISSING)''))
                            (Sprintf_verbs f' [])
                   | x # xs \<Rightarrow> map_option ((@) x) (Sprintf_verbs f' xs))
                else None))"

definition Sprintf :: "'o env \<Rightarrow> string \<Rightarrow> string list \<Rightarrow> string" where
  "Sprintf e f args =
     (case Sprintf_verbs f args of Some s \<Rightarrow> s | None \<Rightarrow> fmt_Sprintf e f args)"

section \<open>Response envelopes\<close>

text \<open>
  \<open>Submission\<close> is declared outside the files modelled here; the methods read its field
  \<open>ID\<close> only, and the other fields are the extension of the record. \<open>Redditor\<close>,
  \<open>Subreddit\<close>, \<open>Trophy\<close> and \<open>Comment\<close> are type variables.
\<close>

record Submission =
  ID :: string

text \<open>
  The envelope of \<open>Listing\<close> and of \<open>SubredditSubmissions\<close>:
  \<open>struct { Data struct { Children []struct { Data *Submission } } }\<close>.
\<close>

record 's resp_child =
  child_Data :: "'s option"

record 's resp_data =
  Children :: "'s resp_child list"

record 's resp =
  resp_Data :: "'s resp_data"

text \<open>The envelope of \<open>UserTrophies\<close>, whose children hold a \<open>Trophy\<close> by value.\<close>

record 't trophy_child =
  trophy_Data :: 't

record 't trophy_data =
  Trophies :: "'t trophy_child list"

record 't trophyData =
  trophyData_Data :: "'t trophy_data"

text \<open>The envelope of \<open>AboutRedditor\<close> and of \<open>AboutSubreddit\<close>: \<open>struct { Data T }\<close>.\<close>

record 'r about =
  about_Data :: 'r

section \<open>Endpoint methods\<close>

definition Listing_url :: "'o env \<Rightarrow> string \<Rightarrow> string \<Rightarrow> Values \<Rightarrow> string" where
  "Listing_url e username listing p =
     Sprintf e ''https://oauth.reddit.com/user/%s/%s?%s'' [username, listing, Values_Encode e p]"

text \<open>
  The loop \<open>for i, child := range r.Data.Children { submissions[i] = child.Data }\<close>, from
  index \<open>i\<close> on; \<open>submissions\<close> has the length of the children, so every index is in range.
\<close>

fun range_Children :: "nat \<Rightarrow> 's resp_child list \<Rightarrow> 's option list \<Rightarrow> 's option list" where
  "range_Children i [] submissions = submissions"
| "range_Children i (child # rest) submissions =
     range_Children (Suc i) rest (submissions[i := child_Data child])"

definition unwrap_Children :: "'s resp \<Rightarrow> 's option list" where
  "unwrap_Children r =
     (let children = Children (resp_Data r);
          submissions = replicate (length children) None
      in range_Children 0 children submissions)"

definition Listing ::
  "'o env \<Rightarrow> (string \<Rightarrow> 's resp \<Rightarrow> 's resp \<times> string option) \<Rightarrow> AppOnlyOAuthSession
     \<Rightarrow> string \<Rightarrow> string \<Rightarrow> string \<Rightarrow> 'o \<Rightarrow> 's option list result" where
  "Listing e unmarshal a username listing sortkey params =
     (case query_Values e params of
        Inl m \<Rightarrow> \<lparr>ret = [], err = Some (ValuesError m), sess = a, events = []\<rparr>
      | Inr p0 \<Rightarrow>
          (let p = (if sortkey \<noteq> [] then Values_Set p0 ''sort'' sortkey else p0);
               r = \<lparr>resp_Data = \<lparr>Children = []\<rparr>\<rparr>;
               url = Listing_url e username listing p;
               g = getBody e unmarshal a url r
           in case err g of
                Some x \<Rightarrow> \<lparr>ret = [], err = Some x, sess = sess g, events = events g\<rparr>
              | None \<Rightarrow> \<lparr>ret = unwrap_Children (ret g), err = None, sess = sess g,
                         events = events g\<rparr>))"

definition Upvoted ::
  "'o env \<Rightarrow> (string \<Rightarrow> 's resp \<Rightarrow> 's resp \<times> string option) \<Rightarrow> AppOnlyOAuthSession
     \<Rightarrow> string \<Rightarrow> string \<Rightarrow> 'o \<Rightarrow> 's option list result" where
  "Upvoted e unmarshal a username sortkey params =
     Listing e unmarshal a username ''upvoted'' sortkey params"

text \<open>
  \<open>AboutRedditor\<close> decodes into a zero \<open>redditor\<close>, given as \<open>zero\<close>, and returns the
  address of its field \<open>Data\<close>, which is never nil.
\<close>

definition AboutRedditor ::
  "'o env \<Rightarrow> (string \<Rightarrow> 'r about \<Rightarrow> 'r about \<times> string option) \<Rightarrow> 'r \<Rightarrow> AppOnlyOAuthSession
     \<Rightarrow> string \<Rightarrow> 'r option result" where
  "AboutRedditor e unmarshal zero a user =
     (let r = \<lparr>about_Data = zero\<rparr>;
          link = Sprintf e ''https://oauth.reddit.com/user/%s/about'' [user];
          g = getBody e unmarshal a link r
      in case err g of
           Some x \<Rightarrow> \<lparr>ret = None, err = Some x, sess = sess g, events = events g\<rparr>
         | None \<Rightarrow> \<lparr>ret = Some (about_Data (ret g)), err = None, sess = sess g,
                    events = events g\<rparr>)"

text \<open>
  \<open>UserTrophies\<close> returns pointers, so its result is read through a store. The loop
  \<open>for _, trophy := range t.Data.Trophies { trophies = append(trophies, &trophy.Data) }\<close>
  has one variable \<open>trophy\<close> for all its iterations (the semantics of the language before
  Go 1.22, which this package is written in): every iteration assigns the next child to
  the variable, at location \<open>l\<close>, and appends the address of its field \<open>Data\<close>.
\<close>

type_synonym 't store = "nat \<Rightarrow> 't trophy_child option"

datatype Trophy_ptr = addr_Data nat

fun range_Trophies ::
  "nat \<Rightarrow> 't trophy_child list \<Rightarrow> 't store \<times> Trophy_ptr list \<Rightarrow> 't store \<times> Trophy_ptr list" where
  "range_Trophies l [] (h, trophies) = (h, trophies)"
| "range_Trophies l (trophy # rest) (h, trophies) =
     range_Trophies l rest (h(l \<mapsto> trophy), trophies @ [addr_Data l])"

text \<open>Reading a \<open>*Trophy\<close> in a store.\<close>

fun deref :: "'t store \<Rightarrow> Trophy_ptr \<Rightarrow> 't option" where
  "deref h (addr_Data l) = map_option trophy_Data (h l)"

text \<open>
  The store returned with the pointers is the memory the call allocated: the loop variable
  is its only cell, at location \<open>0\<close>.
\<close>

definition UserTrophies ::
  "'o env \<Rightarrow> (string \<Rightarrow> 't trophyData \<Rightarrow> 't trophyData \<times> string option) \<Rightarrow> AppOnlyOAuthSession
     \<Rightarrow> string \<Rightarrow> ('t store \<times> Trophy_ptr list) result" where
  "UserTrophies e unmarshal a user =
     (let t = \<lparr>trophyData_Data = \<lparr>Trophies = []\<rparr>\<rparr>;
          url = Sprintf e ''https://oauth.reddit.com/api/v1/user/%s/trophies'' [user];
          g = getBody e unmarshal a url t
      in case err g of
           Some x \<Rightarrow> \<lparr>ret = (Map.empty, []), err = Some x, sess = sess g, events = events g\<rparr>
         | None \<Rightarrow> \<lparr>ret = range_Trophies 0 (Trophies (trophyData_Data (ret g))) (Map.empty, []),
                    err = None, sess = sess g, events = events g\<rparr>)"

definition AboutSubreddit ::
  "'o env \<Rightarrow> (string \<Rightarrow> 'r about \<Rightarrow> 'r about \<times> string option) \<Rightarrow> 'r \<Rightarrow> AppOnlyOAuthSession
     \<Rightarrow> string \<Rightarrow> 'r option result" where
  "AboutSubreddit e unmarshal zero a name =
     (let sr = \<lparr>about_Data = zero\<rparr>;
          link = Sprintf e ''https://oauth.reddit.com/r/%s/about'' [name];
          g = getBody e unmarshal a link sr
      in case err g of
           Some x \<Rightarrow> \<lparr>ret = None, err = Some x, sess = sess g, events = events g\<rparr>
         | None \<Rightarrow> \<lparr>ret = Some (about_Data (ret g)), err = None, sess = sess g,
                    events = events g\<rparr>)"

text \<open>
  \<open>Comments\<close> decodes into \<open>var c interface{}\<close>, an option that is \<open>None\<close> while nil, and
  hands the decoded value to \<open>buildComments\<close>, the comment-tree decoder, which is declared
  outside the files modelled here and is an argument. A nil \<open>h\<close> panics at \<open>h.ID\<close>, after
  the options were serialized. The argument \<open>sort\<close> is not used.
\<close>

datatype 'a go = Return 'a | Panic string

definition Comments_link :: "'o env \<Rightarrow> string \<Rightarrow> Values \<Rightarrow> string" where
  "Comments_link e h_ID p =
     Sprintf e ''https://oauth.reddit.com/comments/%s?%s'' [h_ID, Values_Encode e p]"

definition Comments ::
  "'o env \<Rightarrow> (string \<Rightarrow> 'j option \<Rightarrow> 'j option \<times> string option) \<Rightarrow> ('j option \<Rightarrow> 'c list)
     \<Rightarrow> AppOnlyOAuthSession \<Rightarrow> 'm Submission_scheme option \<Rightarrow> string \<Rightarrow> 'o
     \<Rightarrow> 'c list result go" where
  "Comments e unmarshal buildComments a h sortkey params =
     (case query_Values e params of
        Inl m \<Rightarrow> Return \<lparr>ret = [], err = Some (ValuesError m), sess = a, events = []\<rparr>
      | Inr p \<Rightarrow>
          (case h of
             None \<Rightarrow> Panic ''runtime error: invalid memory address or nil pointer dereference''
           | Some s \<Rightarrow>
               (let link = Comments_link e (ID s) p;
                    g = getBody e unmarshal a link None
                in case err g of
                     Some x \<Rightarrow> Return \<lparr>ret = [], err = Some x, sess = sess g,
                                       events = events g\<rparr>
                   | None \<Rightarrow> Return \<lparr>ret = buildComments (ret g), err = None, sess = sess g,
                                     events = events g\<rparr>)))"

definition SubredditSubmissions_redditURL ::
  "'o env \<Rightarrow> string \<Rightarrow> string \<Rightarrow> Values \<Rightarrow> string" where
  "SubredditSubmissions_redditURL e subreddit sortkey v =
     (let baseUrl = ''https://oauth.reddit.com'';
          baseUrl = (if subreddit \<noteq> [] then baseUrl @ ''/r/'' @ subreddit else baseUrl)
      in Sprintf e (baseUrl @ ''/%s.json?%s'') [sortkey, Values_Encode e v])"

definition SubredditSubmissions ::
  "'o env \<Rightarrow> (string \<Rightarrow> 's resp \<Rightarrow> 's resp \<times> string option) \<Rightarrow> AppOnlyOAuthSession
     \<Rightarrow> string \<Rightarrow> string \<Rightarrow> 'o \<Rightarrow> 's option list result" where
  "SubredditSubmissions e unmarshal a subreddit sortkey params =
     (case query_Values e params of
        Inl m \<Rightarrow> \<lparr>ret = [], err = Some (ValuesError m), sess = a, events = []\<rparr>
      | Inr v \<Rightarrow>
          (let redditURL = SubredditSubmissions_redditURL e subreddit sortkey v;
               r = \<lparr>resp_Data = \<lparr>Children = []\<rparr>\<rparr>;
               g = getBody e unmarshal a redditURL r
           in case err g of
                Some x \<Rightarrow> \<lparr>ret = [], err = Some x, sess = sess g, events = events g\<rparr>
              | None \<Rightarrow> \<lparr>ret = unwrap_Children (ret g), err = None, sess = sess g,
                         events = events g\<rparr>))"

definition Frontpage ::
  "'o env \<Rightarrow> (string \<Rightarrow> 's resp \<Rightarrow> 's resp \<times> string option) \<Rightarrow> AppOnlyOAuthSession
     \<Rightarrow> string \<Rightarrow> 'o \<Rightarrow> 's option list result" where
  "Frontpage e unmarshal a sortkey params = SubredditSubmissions e unmarshal a [] sortkey params"

section \<open>Calls in sequence and what they request\<close>

text \<open>
  \<open>refreshToken\<close> called once for each environment of a list, in order, each call on the
  session the call before it left: the errors returned, the last session and all effects.
\<close>

fun refreshToken_calls ::
  "'o env list \<Rightarrow> AppOnlyOAuthSession \<Rightarrow> error option list \<times> AppOnlyOAuthSession \<times> event list" where
  "refreshToken_calls [] a = ([], a, [])"
| "refreshToken_calls (e # es) a =
     (let r = refreshToken e a;
          (errs, a', evs) = refreshToken_calls es (sess r)
      in (err r # errs, a', events r @ evs))"


text \<open>The trophies a caller of \<open>UserTrophies\<close> reads through the pointers returned.\<close>

definition read_Trophies :: "'t store \<times> Trophy_ptr list \<Rightarrow> 't option list" where
  "read_Trophies r = map (deref (fst r)) (snd r)"

section \<open>Concrete inputs\<close>

text \<open>
  The session that \<open>NewAppOnlyOAuthSession\<close> builds for a client, the same session after a
  token was obtained that expires at 4600, and environments: one at time 1000 whose token
  endpoint grants a token expiring at 4600, whose \<open>http.NewRequest\<close> rejects a link with
  the control character DEL and whose transport answers every request with the body
  \<open>{}\<close>; one whose token endpoint refuses. The options are the fields set, with their
  keys, and are encoded in the order of their keys.
\<close>

definition example_Config :: Config where
  "example_Config = \<lparr>cfg_ClientID = ''client_id'', cfg_ClientSecret = ''client_secret'',
                      cfg_TokenURL = ''https://www.reddit.com/api/v1/access_token''\<rparr>"

definition example_session :: AppOnlyOAuthSession where
  "example_session =
     \<lparr>Client = None, ClientID = ''client_id'', ClientSecret = ''client_secret'',
      OAuthConfig = Some example_Config, TokenExpiry = 0, UserAgent = ''Testing OAuth Bot'',
      ctx = Some Background, Debug = False\<rparr>"

definition example_Client :: http_Client where
  "example_Client = oauth_Client (Some example_Config) (Some Background)"

definition example_session_with_token :: AppOnlyOAuthSession where
  "example_session_with_token =
     example_session\<lparr>TokenExpiry := 4600, Client := Some example_Client\<rparr>"

fun Join :: "string list \<Rightarrow> string \<Rightarrow> string" where
  "Join [] sep = []"
| "Join [x] sep = x"
| "Join (x # y # ys) sep = x @ sep @ Join (y # ys) sep"

definition example_Encode :: "Values \<Rightarrow> string" where
  "example_Encode v =
     Join (concat (map (\<lambda>k. case v k of None \<Rightarrow> [] | Some xs \<Rightarrow> map (\<lambda>x. k @ ''='' @ x) xs)
                    [''after'', ''before'', ''count'', ''limit'', ''show'', ''sort''])) ''&''"

definition example_env :: "(string \<times> string) list env" where
  "example_env =
     \<lparr>time_Now = 1000,
      Config_Token = (\<lambda>g x. Inr \<lparr>Expiry = 4600\<rparr>),
      http_NewRequest = (\<lambda>m l. if CHR 0x7F \<in> set l
                                 then Some ''net/url: invalid control character in URL''
                                 else None),
      Client_Do = (\<lambda>c r. Inr \<lparr>ReadAll_body = ''{}'', ReadAll_err = None\<rparr>),
      query_Values = (\<lambda>opts. Inr (map_of (map (\<lambda>kv. (fst kv, [snd kv])) opts))),
      Values_Encode = example_Encode,
      fmt_Sprintf = (\<lambda>f args. [])\<rparr>"

definition example_env_refused :: "(string \<times> string) list env" where
  "example_env_refused =
     example_env\<lparr>Config_Token := (\<lambda>g x. Inl ''oauth2: cannot fetch token: 401 Unauthorized'')\<rparr>"


definition decode_two_trophies :: "string \<Rightarrow> string trophyData \<Rightarrow> string trophyData \<times> string option" where
  "decode_two_trophies body d =
     (\<lparr>trophyData_Data = \<lparr>Trophies = [\<lparr>trophy_Data = ''Verified Email''\<rparr>,
                                        \<lparr>trophy_Data = ''One-Year Club''\<rparr>]\<rparr>\<rparr>, None)"

definition wrong_type :: string where
  "wrong_type = ''json: cannot unmarshal number into Go value''"

definition decode_partly_resp :: "string \<Rightarrow> Submission resp \<Rightarrow> Submission resp \<times> string option" where
  "decode_partly_resp body d =
     (\<lparr>resp_Data = \<lparr>Children = [\<lparr>child_Data = Some \<lparr>ID = ''1abc''\<rparr>\<rparr>]\<rparr>\<rparr>, Some wrong_type)"

definition decode_partly_trophies :: "string \<Rightarrow> string trophyData \<Rightarrow> string trophyData \<times> string option" where
  "decode_partly_trophies body d =
     (\<lparr>trophyData_Data = \<lparr>Trophies = [\<lparr>trophy_Data = ''Verified Email''\<rparr>]\<rparr>\<rparr>, Some wrong_type)"

definition decode_partly_about :: "string \<Rightarrow> string about \<Rightarrow> string about \<times> string option" where
  "decode_partly_about body d = (\<lparr>about_Data = ''golang''\<rparr>, Some wrong_type)"

definition decode_partly_value :: "string \<Rightarrow> string option \<Rightarrow> string option \<times> string option" where
  "decode_partly_value body d = (Some ''[1'', Some wrong_type)"

section \<open>Lemmas\<close>

subsection \<open>Formatting\<close>

lemma Sprintf_verbs_literal:
  "CHR ''%'' \<notin> set xs \<Longrightarrow>
     Sprintf_verbs (xs @ f) args = map_option ((@) xs) (Sprintf_verbs f args)"
proof (induction xs)
  case Nil
  show ?case by (cases "Sprintf_verbs f args") simp_all
next
  case (Cons a xs)
  have a: "a \<noteq> CHR ''%''"
    using Cons.prems by auto
  have "Sprintf_verbs (xs @ f) args = map_option ((@) xs) (Sprintf_verbs f args)"
    using Cons.prems by (intro Cons.IH) simp
  with a show ?case by (cases "Sprintf_verbs f args") simp_all
qed

lemma Listing_url_eq:
  "Listing_url e username listing p
     = ''https://oauth.reddit.com/user/'' @ username @ ''/'' @ listing @ ''?'' @ Values_Encode e p"
  by (simp add: Listing_url_def Sprintf_def)

lemma Comments_link_eq:
  "Comments_link e h_ID p = ''https://oauth.reddit.com/comments/'' @ h_ID @ ''?'' @ Values_Encode e p"
  by (simp add: Comments_link_def Sprintf_def)

lemma redditURL_frontpage:
  "SubredditSubmissions_redditURL e [] sortkey v
     = ''https://oauth.reddit.com/'' @ sortkey @ ''.json?'' @ Values_Encode e v"
  by (simp add: SubredditSubmissions_redditURL_def Sprintf_def)

lemma redditURL_subreddit:
  assumes "CHR ''%'' \<notin> set subreddit" and "subreddit \<noteq> []"
  shows "SubredditSubmissions_redditURL e subreddit sortkey v
     = ''https://oauth.reddit.com/r/'' @ subreddit @ ''/'' @ sortkey @ ''.json?'' @ Values_Encode e v"
proof -
  have "CHR ''%'' \<notin> set (''https://oauth.reddit.com/r/'' @ subreddit)"
    using assms(1) by simp
  then have "Sprintf_verbs ((''https://oauth.reddit.com/r/'' @ subreddit) @ ''/%s.json?%s'')
                [sortkey, Values_Encode e v]
             = map_option ((@) (''https://oauth.reddit.com/r/'' @ subreddit))
                 (Sprintf_verbs ''/%s.json?%s'' [sortkey, Values_Encode e v])"
    by (rule Sprintf_verbs_literal)
  then show ?thesis
    using assms(2) by (simp add: SubredditSubmissions_redditURL_def Sprintf_def)
qed

subsection \<open>Token refresh\<close>

lemma refreshToken_before_expiry:
  "time_Now e < TokenExpiry a \<Longrightarrow>
     refreshToken e a = \<lparr>ret = (), err = None, sess = a, events = []\<rparr>"
  by (simp add: refreshToken_def)


lemma refreshToken_exchange_succeeds:
  "\<not> time_Now e < TokenExpiry a \<Longrightarrow> Config_Token e (OAuthConfig a) (ctx a) = Inr t \<Longrightarrow>
     refreshToken e a = \<lparr>ret = (), err = None,
        sess = a\<lparr>TokenExpiry := Expiry t, Client := Some (oauth_Client (OAuthConfig a) (ctx a))\<rparr>,
        events = [TokenExchange (OAuthConfig a)]\<rparr>"
  by (simp add: refreshToken_def)

lemma refreshToken_keeps_Client:
  "Client a \<noteq> None \<Longrightarrow> Client (sess (refreshToken e a)) \<noteq> None"
  by (simp add: refreshToken_def split: sum.splits)

lemma refreshToken_UserAgent: "UserAgent (sess (refreshToken e a)) = UserAgent a"
  by (simp add: refreshToken_def split: sum.splits)

lemma refreshToken_calls_keep_Client:
  "Client a \<noteq> None \<Longrightarrow> Client (fst (snd (refreshToken_calls es a))) \<noteq> None"
proof (induction es arbitrary: a)
  case Nil
  then show ?case by simp
next
  case (Cons e es)
  have "Client (sess (refreshToken e a)) \<noteq> None"
    using Cons.prems by (rule refreshToken_keeps_Client)
  from Cons.IH [OF this] show ?case
    by (simp add: Let_def split_beta)
qed

subsection \<open>The fetch\<close>

lemma getBody_sess: "sess (getBody e u a link d) = sess (refreshToken e a)"
  by (simp add: getBody_def Let_def split: option.splits sum.splits prod.splits)

lemma getBody_lacks_client:
  "err (getBody e u a link d) = Some lacks_client \<Longrightarrow> Client (sess (refreshToken e a)) = None"
  by (auto simp add: getBody_def Let_def lacks_client_def
      split: option.splits sum.splits prod.splits)





lemma getBody_decode_fails:
  assumes "http_NewRequest e ''GET'' link = None"
    and "Client (sess (refreshToken e a)) = Some c"
    and "\<forall>r. Client_Do e c r = Inr resp"
    and "\<forall>d. snd (u (ReadAll_body resp) d) = Some m"
  shows "err (getBody e u a link d) = Some (UnmarshalError m)"
proof -
  obtain d' where "u (ReadAll_body resp) d = (d', Some m)"
    using assms(4) by (metis prod.collapse)
  then show ?thesis
    using assms(1-3) by (simp add: getBody_def Let_def)
qed

subsection \<open>Unwrapping the children\<close>

lemma range_Children_eq:
  "length submissions = i + length children \<Longrightarrow>
     range_Children i children submissions = take i submissions @ map child_Data children"
proof (induction children arbitrary: i submissions)
  case Nil
  then show ?case by simp
next
  case (Cons child rest)
  have "range_Children (Suc i) rest (submissions[i := child_Data child])
          = take (Suc i) (submissions[i := child_Data child]) @ map child_Data rest"
    using Cons.prems by (intro Cons.IH) simp
  moreover have "take (Suc i) (submissions[i := child_Data child])
                   = take i submissions @ [child_Data child]"
    using Cons.prems by (simp add: take_Suc_conv_app_nth)
  ultimately show ?case by simp
qed

lemma unwrap_Children_eq: "unwrap_Children r = map child_Data (Children (resp_Data r))"
  by (simp add: unwrap_Children_def Let_def range_Children_eq)

lemma range_Trophies_eq:
  "range_Trophies l ts (h, ps)
     = ((if ts = [] then h else h(l \<mapsto> last ts)), ps @ replicate (length ts) (addr_Data l))"
proof (induction ts arbitrary: h ps)
  case Nil
  then show ?case by simp
next
  case (Cons t ts)
  show ?case
    by (auto simp add: Cons.IH replicate_app_Cons_same fun_upd_def)
qed

lemma read_range_Trophies:
  "read_Trophies (range_Trophies l ts (h, []))
     = replicate (length ts) (Some (trophy_Data (last ts)))"
  by (simp add: read_Trophies_def range_Trophies_eq)

lemma Listing_children:
  assumes "query_Values e params = Inr p0"
    and "g = getBody e u a
           (Listing_url e username listing
              (if sortkey \<noteq> [] then Values_Set p0 ''sort'' sortkey else p0))
           \<lparr>resp_Data = \<lparr>Children = []\<rparr>\<rparr>"
    and "err g = None"
  shows "Listing e u a username listing sortkey params
           = \<lparr>ret = map child_Data (Children (resp_Data (ret g))), err = None, sess = sess g,
              events = events g\<rparr>"
  using assms by (simp add: Listing_def Let_def unwrap_Children_eq)

lemma SubredditSubmissions_children:
  assumes "query_Values e params = Inr v"
    and "g = getBody e u a (SubredditSubmissions_redditURL e subreddit sortkey v)
           \<lparr>resp_Data = \<lparr>Children = []\<rparr>\<rparr>"
    and "err g = None"
  shows "SubredditSubmissions e u a subreddit sortkey params
           = \<lparr>ret = map child_Data (Children (resp_Data (ret g))), err = None, sess = sess g,
              events = events g\<rparr>"
  using assms by (simp add: SubredditSubmissions_def Let_def unwrap_Children_eq)

lemma UserTrophies_reads_last:
  assumes "g = getBody e u a
           (Sprintf e ''https://oauth.reddit.com/api/v1/user/%s/trophies'' [user])
           \<lparr>trophyData_Data = \<lparr>Trophies = []\<rparr>\<rparr>"
    and "err g = None"
    and "ts = Trophies (trophyData_Data (ret g))"
  shows "read_Trophies (ret (UserTrophies e u a user))
           = replicate (length ts) (Some (trophy_Data (last ts)))"
  using assms by (simp add: UserTrophies_def Let_def read_range_Trophies)

section \<open>Properties of construction\<close>

text \<open>
  C7. For every client id, client secret, user agent and debug flag, constructing a
  session returns a session and a nil error and performs no effect on the outside world;
  the session's user agent is the default identifying string when the given one is empty,
  and the given one otherwise.
\<close>

theorem NewAppOnlyOAuthSession_never_fails:
  "\<exists>s. NewAppOnlyOAuthSession clientID clientSecret useragent debug = (Some s, None, [])
     \<and> UserAgent s = (if useragent = [] then default_UserAgent else useragent)
     \<and> default_UserAgent \<noteq> []"
  by (simp add: NewAppOnlyOAuthSession_def default_UserAgent_def)

section \<open>Properties of the token refresh and the fetch\<close>

lemma example_refused_simps:
  "time_Now example_env_refused = 1000"
  "Config_Token example_env_refused g x = Inl ''oauth2: cannot fetch token: 401 Unauthorized''"
  "http_NewRequest example_env_refused ''GET'' ''https://oauth.reddit.com/r/golang/about'' = None"
  by (simp_all add: example_env_refused_def example_env_def)



text \<open>
  C3. For every session in which the token is due for refresh and the token exchange
  fails, \<open>refreshToken\<close> returns the error of the exchange and leaves the whole session,
  with its token expiry and its client, as it was; so a call at any later time performs
  the token exchange again.
\<close>

theorem refreshToken_failure_leaves_session:
  assumes "\<not> time_Now e < TokenExpiry a"
    and "Config_Token e (OAuthConfig a) (ctx a) = Inl m"
  shows "err (refreshToken e a) = Some (TokenError m)
     \<and> sess (refreshToken e a) = a
     \<and> (\<forall>e' :: 'o env. time_Now e \<le> time_Now e' \<longrightarrow>
           events (refreshToken e' (sess (refreshToken e a))) = [TokenExchange (OAuthConfig a)])"
  using assms by (auto simp add: refreshToken_def split: sum.splits)

text \<open>
  At the fresh example session: the refused exchange leaves it unchanged, and the next
  call, one tick later, exchanges again.
\<close>

theorem refreshToken_failure_leaves_session_witness:
  "err (refreshToken example_env_refused example_session)
       = Some (TokenError ''oauth2: cannot fetch token: 401 Unauthorized'')
   \<and> sess (refreshToken example_env_refused example_session) = example_session
   \<and> events (refreshToken (example_env\<lparr>time_Now := 1001\<rparr>)
               (sess (refreshToken example_env_refused example_session)))
       = [TokenExchange (Some example_Config)]"
proof -
  have h2: "\<not> time_Now example_env_refused < TokenExpiry example_session"
    by (simp add: example_refused_simps example_session_def)
  have h3: "Config_Token example_env_refused (OAuthConfig example_session) (ctx example_session)
              = Inl ''oauth2: cannot fetch token: 401 Unauthorized''"
    by (simp add: example_refused_simps)
  have h4: "time_Now example_env_refused \<le> time_Now (example_env\<lparr>time_Now := 1001\<rparr>)"
    "OAuthConfig example_session = Some example_Config"
    by (simp_all add: example_refused_simps example_session_def)
  from refreshToken_failure_leaves_session [OF h2 h3]
  have "err (refreshToken example_env_refused example_session)
           = Some (TokenError ''oauth2: cannot fetch token: 401 Unauthorized'')"
    and "sess (refreshToken example_env_refused example_session) = example_session"
    and later: "\<forall>e' :: (string \<times> string) list env. time_Now example_env_refused \<le> time_Now e' \<longrightarrow>
           events (refreshToken e' (sess (refreshToken example_env_refused example_session)))
             = [TokenExchange (OAuthConfig example_session)]"
    by blast+
  moreover from later h4
  have "events (refreshToken (example_env\<lparr>time_Now := 1001\<rparr>)
               (sess (refreshToken example_env_refused example_session)))
       = [TokenExchange (Some example_Config)]"
    by metis
  ultimately show ?thesis
    by simp
qed

text \<open>
  C4. For every session and any number of calls of \<open>refreshToken\<close> in sequence, each at a
  time before the stored token expiry: no call performs a token exchange or returns an
  error, and the session is unchanged. Hence a successful exchange followed by any number
  of calls before the expiry it stored makes one exchange in all.
\<close>

theorem refreshToken_idempotent_before_expiry:
  "((\<forall>e \<in> set es. time_Now e < TokenExpiry a) \<longrightarrow>
      refreshToken_calls es a = (replicate (length es) None, a, []))
   \<and> (\<not> time_Now e0 < TokenExpiry a \<and> Config_Token e0 (OAuthConfig a) (ctx a) = Inr t
        \<and> (\<forall>e \<in> set es. time_Now e < Expiry t) \<longrightarrow>
      snd (snd (refreshToken_calls (e0 # es) a)) = [TokenExchange (OAuthConfig a)])"
proof -
  have calls: "(\<forall>e \<in> set es. time_Now e < TokenExpiry b) \<Longrightarrow>
      refreshToken_calls es b = (replicate (length es) None, b, [])" for b
    by (induction es) (simp_all add: refreshToken_before_expiry)
  show ?thesis
  proof (intro conjI impI)
    assume "\<forall>e \<in> set es. time_Now e < TokenExpiry a"
    then show "refreshToken_calls es a = (replicate (length es) None, a, [])"
      by (rule calls)
  next
    assume h: "\<not> time_Now e0 < TokenExpiry a \<and> Config_Token e0 (OAuthConfig a) (ctx a) = Inr t
        \<and> (\<forall>e \<in> set es. time_Now e < Expiry t)"
    let ?b = "a\<lparr>TokenExpiry := Expiry t, Client := Some (oauth_Client (OAuthConfig a) (ctx a))\<rparr>"
    have r: "refreshToken e0 a = \<lparr>ret = (), err = None, sess = ?b,
                                   events = [TokenExchange (OAuthConfig a)]\<rparr>"
      using h by (simp add: refreshToken_exchange_succeeds)
    have "\<forall>e \<in> set es. time_Now e < TokenExpiry ?b"
      using h by simp
    then have "refreshToken_calls es ?b = (replicate (length es) None, ?b, [])"
      by (rule calls)
    then show "snd (snd (refreshToken_calls (e0 # es) a)) = [TokenExchange (OAuthConfig a)]"
      by (simp add: r)
  qed
qed

text \<open>
  Three calls at times 1000, 2000 and 4599 on the session whose token expires at 4600
  exchange nothing; on the fresh session the first call exchanges and the other two do not.
\<close>

theorem refreshToken_idempotent_before_expiry_witness:
  "refreshToken_calls [example_env, example_env\<lparr>time_Now := 2000\<rparr>, example_env\<lparr>time_Now := 4599\<rparr>]
       example_session_with_token
     = ([None, None, None], example_session_with_token, [])
   \<and> snd (snd (refreshToken_calls
         [example_env, example_env\<lparr>time_Now := 2000\<rparr>, example_env\<lparr>time_Now := 4599\<rparr>]
         example_session))
     = [TokenExchange (Some example_Config)]"
proof -
  let ?es = "[example_env\<lparr>time_Now := 2000\<rparr>, example_env\<lparr>time_Now := 4599\<rparr>]"
  have h1: "\<forall>e \<in> set (example_env # ?es). time_Now e < TokenExpiry example_session_with_token"
    by (simp add: example_env_def example_session_with_token_def example_session_def)
  have h2: "\<not> time_Now example_env < TokenExpiry example_session
      \<and> Config_Token example_env (OAuthConfig example_session) (ctx example_session)
          = Inr \<lparr>Expiry = 4600\<rparr>
      \<and> (\<forall>e \<in> set ?es. time_Now e < Expiry \<lparr>Expiry = 4600\<rparr>)"
    by (simp add: example_env_def example_session_def)
  have h3: "OAuthConfig example_session = Some example_Config"
    by (simp add: example_session_def)
  from refreshToken_idempotent_before_expiry
         [where es = "example_env # ?es" and a = example_session_with_token]
       refreshToken_idempotent_before_expiry
         [where es = ?es and a = example_session and ?e0.0 = example_env
            and t = "\<lparr>Expiry = 4600\<rparr>"]
       h1 h2 h3
  show ?thesis
    by simp
qed

end
